theory Spec2Isabelle
  imports Complex_Main "HOL-Library.Word"
begin

unbundle bit_operations_syntax

section \<open>JavaScript string primitives used by the engine\<close>

text \<open>
  A JavaScript string is a sequence of code units; it is modelled as a \<open>string\<close>
  (a list of 8-bit characters), indices and lengths as \<open>int\<close>, because the window
  start of the Fragmenter can become negative.
\<close>

definition js_substring :: "string \<Rightarrow> int \<Rightarrow> int \<Rightarrow> string" where
  \<comment> \<open>\<open>String.prototype.substring\<close>: both indices are clamped to \<open>[0, length]\<close> and
      swapped when the first exceeds the second.\<close>
  "js_substring s a b =
     (let n = int (length s);
          fa = min (max a 0) n;
          fb = min (max b 0) n
      in take (nat (max fa fb - min fa fb)) (drop (nat (min fa fb)) s))"

fun last_index_from :: "string \<Rightarrow> char \<Rightarrow> nat \<Rightarrow> int" where
  "last_index_from s c 0 = (if s \<noteq> [] \<and> s ! 0 = c then 0 else - 1)"
| "last_index_from s c (Suc i) =
     (if Suc i < length s \<and> s ! Suc i = c then int (Suc i) else last_index_from s c i)"

definition js_lastIndexOf :: "string \<Rightarrow> char \<Rightarrow> int \<Rightarrow> int" where
  \<comment> \<open>\<open>String.prototype.lastIndexOf\<close> for a one-character search string: the
      position is clamped to \<open>[0, length - 1]\<close>, the search runs downwards, and
      \<open>-1\<close> is the answer when nothing is found.\<close>
  "js_lastIndexOf s c pos =
     (if s = [] then - 1
      else last_index_from s c (nat (min (max pos 0) (int (length s) - 1))))"

definition is_js_space :: "char \<Rightarrow> bool" where
  \<comment> \<open>The white space and line terminators of \<open>String.prototype.trim\<close> that fit in
      one 8-bit code unit: TAB, LF, VT, FF, CR, SPACE and NBSP.\<close>
  "is_js_space c = (of_char c \<in> {9, 10, 11, 12, 13, 32, 160 :: nat})"

definition js_trim :: "string \<Rightarrow> string" where
  "js_trim s = rev (dropWhile is_js_space (rev (dropWhile is_js_space s)))"

section \<open>Fragmenter: \<open>chunkText\<close>\<close>

text \<open>
  The \<open>while\<close> loop of \<open>chunkText\<close>. It is not known to terminate, so the model
  counts iterations with fuel: \<open>None\<close> means that the loop is still running after
  that many iterations.
\<close>

definition window_end :: "string \<Rightarrow> int \<Rightarrow> int \<Rightarrow> int" where
  \<comment> \<open>The end of the window that starts at \<open>start\<close>: \<open>start + chunkSize\<close>, moved back
      to the last space at or before it when the window is not the last one and that
      space lies after \<open>start\<close>.\<close>
  "window_end text chunkSize start =
     (let end0 = start + chunkSize
      in if end0 < int (length text)
         then (let lastSpace = js_lastIndexOf text (CHR '' '') end0
               in if lastSpace > start then lastSpace else end0)
         else end0)"

fun chunk_loop :: "nat \<Rightarrow> string \<Rightarrow> int \<Rightarrow> int \<Rightarrow> int \<Rightarrow> string list \<Rightarrow> string list option" where
  "chunk_loop 0 text chunkSize overlap start chunks =
     (if start < int (length text) then None else Some chunks)"
| "chunk_loop (Suc fuel) text chunkSize overlap start chunks =
     (if start < int (length text)
      then (let end = window_end text chunkSize start;
                chunks' = chunks @ [js_trim (js_substring text start end)]
            in if end \<ge> int (length text) then Some chunks'
               else chunk_loop fuel text chunkSize overlap (end - overlap) chunks')
      else Some chunks)"

definition chunkText :: "nat \<Rightarrow> string \<Rightarrow> int \<Rightarrow> int \<Rightarrow> string list option" where
  "chunkText fuel text chunkSize overlap =
     (if int (length text) \<le> chunkSize then Some [text]
      else chunk_loop fuel text chunkSize overlap 0 [])"





section \<open>Fuser: \<open>mergeWithRRF\<close>\<close>

text \<open>
  JavaScript numbers are modelled as exact reals; chunk identifiers are integers.
  A \<open>Map\<close> iterates in the order in which its keys were first set, so it is an
  association list: \<open>map_set\<close> overwrites in place or appends.
\<close>

record 's RankedResult =
  rid :: int
  score :: 's

fun map_set :: "(int \<times> real) list \<Rightarrow> int \<Rightarrow> real \<Rightarrow> (int \<times> real) list" where
  "map_set [] k v = [(k, v)]"
| "map_set ((k', v') # m) k v =
     (if k' = k then (k, v) # m else (k', v') # map_set m k v)"

definition get_or0 :: "(int \<times> real) list \<Rightarrow> int \<Rightarrow> real" where
  \<comment> \<open>\<open>scores.get(id) || 0\<close>\<close>
  "get_or0 m k = (case map_of m k of None \<Rightarrow> 0 | Some v \<Rightarrow> v)"

fun rrf_forEach :: "int \<Rightarrow> 's RankedResult list \<Rightarrow> nat \<Rightarrow> (int \<times> real) list \<Rightarrow> (int \<times> real) list" where
  \<comment> \<open>\<open>results.forEach((result, rank) => ...)\<close>, from index \<open>rank\<close> on\<close>
  "rrf_forEach k [] rank scores = scores"
| "rrf_forEach k (result # results) rank scores =
     (let rrfScore = 1 / (of_int k + of_nat rank + 1);
          currentScore = get_or0 scores (rid result)
      in rrf_forEach k results (Suc rank) (map_set scores (rid result) (currentScore + rrfScore)))"

definition sort_score_desc :: "real RankedResult list \<Rightarrow> real RankedResult list" where
  \<comment> \<open>\<open>merged.sort((a, b) => b.score - a.score)\<close>. \<open>Array.prototype.sort\<close> is stable
      and the comparator is a consistent order on finite numbers, so the result is the
      stable sort by descending score.\<close>
  "sort_score_desc rs = sort_key (\<lambda>r. - score r) rs"

definition mergeWithRRF :: "'s RankedResult list list \<Rightarrow> int \<Rightarrow> real RankedResult list" where
  "mergeWithRRF resultLists k =
     (let scores = fold (\<lambda>results scores. rrf_forEach k results 0 scores) resultLists [];
          merged = map (\<lambda>(i, s). \<lparr>rid = i, score = s\<rparr>) scores
      in sort_score_desc merged)"

text \<open>
  The fusion formula in words: the term of one list for an identifier sums
  \<open>1 / (K + rank + 1)\<close> over the zero-based positions \<open>rank\<close> at which the identifier
  occurs in the list, and the fused score sums the terms of all lists. The accumulator
  receives the identifiers in the order of their first occurrence.
\<close>

definition list_term :: "int \<Rightarrow> 's RankedResult list \<Rightarrow> int \<Rightarrow> real" where
  "list_term k l i =
     (\<Sum>rank\<leftarrow>[0..<length l]. if rid (l ! rank) = i then 1 / (of_int k + of_nat rank + 1) else 0)"

definition fused :: "int \<Rightarrow> 's RankedResult list list \<Rightarrow> int \<Rightarrow> real" where
  "fused k ls i = (\<Sum>l\<leftarrow>ls. list_term k l i)"

definition first_occurrences :: "'a list \<Rightarrow> 'a list" where
  "first_occurrences xs = rev (remdups (rev xs))"

definition insertion_order :: "'s RankedResult list list \<Rightarrow> int list" where
  "insertion_order ls = first_occurrences (map rid (concat ls))"

section \<open>Store\<close>

text \<open>
  The tables of \<open>initDatabase\<close>, as lists of rows in insertion order. The two
  wall-clock columns of \<open>files\<close> are left out. \<open>sqlite_sequence\<close> holds the
  \<open>AUTOINCREMENT\<close> counters of \<open>files\<close> and \<open>chunks\<close>; \<open>chunks_fts\<close> is the
  full-text table, a row identifier with its text. An embedding is the stored byte
  payload.
\<close>

record FileRecord =
  file_id :: int
  path :: string
  hash :: string

record ChunkRecord =
  chunk_id :: int
  chunk_file_id :: int
  chunk_index :: int
  content :: string
  raw_text :: string
  embedding :: "8 word list option"

record ConversationRow =
  conv_id :: string
  source :: string
  session_id :: string
  timestamp :: string
  archive_path :: string
  exchange_count :: int
  conv_hash :: string
  last_indexed :: "int option"
  copilot_version :: "string option"
  cwd :: "string option"

record ExchangeRow =
  ex_id :: string
  conversation_id :: string
  exchange_index :: int
  ex_timestamp :: string
  user_message :: string
  assistant_message :: string
  tool_calls :: "string list option"
  parent_id :: "string option"
  ex_embedding :: "8 word list option"

record Database =
  files :: "FileRecord list"
  chunks :: "ChunkRecord list"
  chunks_fts :: "(int \<times> string) list"
  sqlite_sequence :: "(string \<times> int) list"
  conversations :: "ConversationRow list"
  exchanges :: "ExchangeRow list"

definition empty_db :: Database where
  "empty_db = \<lparr>files = [], chunks = [], chunks_fts = [], sqlite_sequence = [],
               conversations = [], exchanges = []\<rparr>"

datatype db_error = SQLITE_CONSTRAINT

definition next_rowid :: "string \<Rightarrow> int list \<Rightarrow> Database \<Rightarrow> int" where
  \<comment> \<open>\<open>AUTOINCREMENT\<close>: one more than the largest row identifier the table ever held.\<close>
  "next_rowid table ids db =
     Max (set (0 # ids @ map snd (filter (\<lambda>(n, _). n = table) (sqlite_sequence db)))) + 1"

definition set_sequence :: "string \<Rightarrow> int \<Rightarrow> (string \<times> int) list \<Rightarrow> (string \<times> int) list" where
  "set_sequence table v seq = filter (\<lambda>(n, _). n \<noteq> table) seq @ [(table, v)]"

subsection \<open>Operations on files and chunks\<close>

definition insertFile :: "Database \<Rightarrow> string \<Rightarrow> string \<Rightarrow> db_error + (Database \<times> int)" where
  \<comment> \<open>\<open>path\<close> is \<open>UNIQUE\<close>.\<close>
  "insertFile db filePath h =
     (if filePath \<in> set (map path (files db)) then Inl SQLITE_CONSTRAINT
      else (let i = next_rowid ''files'' (map file_id (files db)) db
            in Inr (db\<lparr>files := files db @ [\<lparr>file_id = i, path = filePath, hash = h\<rparr>],
                       sqlite_sequence := set_sequence ''files'' i (sqlite_sequence db)\<rparr>, i)))"

definition getFileByPath :: "Database \<Rightarrow> string \<Rightarrow> FileRecord option" where
  "getFileByPath db filePath = find (\<lambda>f. path f = filePath) (files db)"

definition getAllFiles :: "Database \<Rightarrow> FileRecord list" where
  "getAllFiles db = files db"

definition updateFileHash :: "Database \<Rightarrow> int \<Rightarrow> string \<Rightarrow> Database" where
  "updateFileHash db fileId h =
     db\<lparr>files := map (\<lambda>f. if file_id f = fileId then f\<lparr>hash := h\<rparr> else f) (files db)\<rparr>"

definition deleteFile :: "Database \<Rightarrow> int \<Rightarrow> Database" where
  \<comment> \<open>\<open>chunks.file_id\<close> references \<open>files(id)\<close> with \<open>ON DELETE CASCADE\<close>.\<close>
  "deleteFile db fileId =
     db\<lparr>files := filter (\<lambda>f. file_id f \<noteq> fileId) (files db),
        chunks := filter (\<lambda>c. chunk_file_id c \<noteq> fileId) (chunks db)\<rparr>"

definition deleteChunksByFileId :: "Database \<Rightarrow> int \<Rightarrow> Database" where
  "deleteChunksByFileId db fileId =
     db\<lparr>chunks := filter (\<lambda>c. chunk_file_id c \<noteq> fileId) (chunks db)\<rparr>"

definition insertChunkWithEmbedding ::
  "Database \<Rightarrow> int \<Rightarrow> int \<Rightarrow> string \<Rightarrow> string \<Rightarrow> 8 word list \<Rightarrow> db_error + (Database \<times> int)" where
  \<comment> \<open>\<open>file_id\<close> must name a file, and \<open>(file_id, chunk_index)\<close> is \<open>UNIQUE\<close>.\<close>
  "insertChunkWithEmbedding db fileId chunkIndex c rawText emb =
     (if fileId \<notin> set (map file_id (files db))
         \<or> (fileId, chunkIndex) \<in> set (map (\<lambda>c. (chunk_file_id c, chunk_index c)) (chunks db))
      then Inl SQLITE_CONSTRAINT
      else (let i = next_rowid ''chunks'' (map chunk_id (chunks db)) db
            in Inr (db\<lparr>chunks := chunks db @
                         [\<lparr>chunk_id = i, chunk_file_id = fileId, chunk_index = chunkIndex,
                           content = c, raw_text = rawText, embedding = Some emb\<rparr>],
                       sqlite_sequence := set_sequence ''chunks'' i (sqlite_sequence db)\<rparr>, i)))"

definition insert_fts :: "Database \<Rightarrow> int \<Rightarrow> string \<Rightarrow> db_error + Database" where
  \<comment> \<open>\<open>INSERT INTO chunks_fts (rowid, content) VALUES (?, ?)\<close>\<close>
  "insert_fts db rowid c =
     (if rowid \<in> set (map fst (chunks_fts db)) then Inl SQLITE_CONSTRAINT
      else Inr (db\<lparr>chunks_fts := chunks_fts db @ [(rowid, c)]\<rparr>))"

subsection \<open>Reset\<close>

definition resetDatabase :: "Database \<Rightarrow> Database" where
  \<comment> \<open>The four \<open>DELETE\<close> statements in order; \<open>VACUUM\<close> changes no row.\<close>
  "resetDatabase db =
     (let db1 = db\<lparr>chunks := []\<rparr>;
          db2 = db1\<lparr>files := [], chunks := []\<rparr>;
          db3 = db2\<lparr>chunks_fts := []\<rparr>
      in db3\<lparr>sqlite_sequence :=
               filter (\<lambda>(n, _). n \<notin> {''files'', ''chunks''}) (sqlite_sequence db3)\<rparr>)"

subsection \<open>Operations on conversations and exchanges\<close>

definition getConversation :: "Database \<Rightarrow> string \<Rightarrow> ConversationRow option" where
  "getConversation db i = find (\<lambda>c. conv_id c = i) (conversations db)"

definition getAllConversationsBySource :: "Database \<Rightarrow> string \<Rightarrow> ConversationRow list" where
  "getAllConversationsBySource db src = filter (\<lambda>c. source c = src) (conversations db)"

definition deleteConversation :: "Database \<Rightarrow> string \<Rightarrow> Database" where
  \<comment> \<open>\<open>DELETE FROM conversations WHERE id = ?\<close>; \<open>exchanges.conversation_id\<close>
      references \<open>conversations(id)\<close> with \<open>ON DELETE CASCADE\<close>, so the statement
      removes the exchanges of the conversation as well.\<close>
  "deleteConversation db i =
     db\<lparr>conversations := filter (\<lambda>c. conv_id c \<noteq> i) (conversations db),
        exchanges := filter (\<lambda>e. conversation_id e \<noteq> i) (exchanges db)\<rparr>"


section \<open>Conversation Indexer: delete detection\<close>

record IndexResult =
  conversationsIndexed :: nat
  exchangesIndexed :: nat
  conversationsSkipped :: nat
  conversationsDeleted :: nat
  index_errors :: "string list"

definition empty_result :: IndexResult where
  "empty_result = \<lparr>conversationsIndexed = 0, exchangesIndexed = 0, conversationsSkipped = 0,
                    conversationsDeleted = 0, index_errors = []\<rparr>"

definition prune_copilot :: "string list \<Rightarrow> ConversationRow \<Rightarrow> Database \<times> IndexResult \<Rightarrow> Database \<times> IndexResult" where
  \<comment> \<open>The body of the first loop of \<open>indexConversationFiles\<close>: a stored conversation
      with a non-empty archive path that is not among \<open>filePaths\<close> is deleted.\<close>
  "prune_copilot filePaths conv st =
     (if archive_path conv \<noteq> [] \<and> archive_path conv \<notin> set filePaths
      then (deleteConversation (fst st) (conv_id conv),
            (snd st)\<lparr>conversationsDeleted := conversationsDeleted (snd st) + 1\<rparr>)
      else st)"

definition delete_detection :: "Database \<Rightarrow> string list \<Rightarrow> Database \<times> IndexResult" where
  "delete_detection db filePaths =
     fold (prune_copilot filePaths) (getAllConversationsBySource db ''copilot'') (db, empty_result)"

definition example_conversation :: ConversationRow where
  "example_conversation =
     \<lparr>conv_id = ''s1'', source = ''copilot'', session_id = ''s1'',
      timestamp = ''2024-06-01T10:00:00Z'', archive_path = ''/archive/s1.jsonl'',
      exchange_count = 1, conv_hash = ''00'', last_indexed = Some 1, copilot_version = None,
      cwd = None\<rparr>"

definition example_exchange :: ExchangeRow where
  "example_exchange =
     \<lparr>ex_id = ''x1'', conversation_id = ''s1'', exchange_index = 0,
      ex_timestamp = ''2024-06-01T10:00:05Z'', user_message = ''hi'',
      assistant_message = ''hello'', tool_calls = None, parent_id = None,
      ex_embedding = None\<rparr>"

definition example_store :: Database where
  \<comment> \<open>One note with one fragment and its full-text row, and one conversation with one
      exchange.\<close>
  "example_store =
     \<lparr>files = [\<lparr>file_id = 1, path = ''a.md'', hash = ''ab''\<rparr>],
      chunks = [\<lparr>chunk_id = 1, chunk_file_id = 1, chunk_index = 0, content = ''note'',
                 raw_text = ''note'', embedding = None\<rparr>],
      chunks_fts = [(1, ''note'')],
      sqlite_sequence = [(''files'', 1), (''chunks'', 1)],
      conversations = [example_conversation],
      exchanges = [example_exchange]\<rparr>"

section \<open>Numbers and the embedding byte layout\<close>

text \<open>
  A JavaScript number where the not-a-number and the infinities matter: a finite value
  (an exact real), \<open>+Infinity\<close>, \<open>-Infinity\<close> or \<open>NaN\<close>. Rounding and overflow of
  doubles are not modelled.
\<close>

datatype jsnum = Fin real | PInf | NInf | NaN

fun js_neg :: "jsnum \<Rightarrow> jsnum" where
  "js_neg (Fin a) = Fin (- a)"
| "js_neg PInf = NInf"
| "js_neg NInf = PInf"
| "js_neg NaN = NaN"

fun js_add :: "jsnum \<Rightarrow> jsnum \<Rightarrow> jsnum" where
  "js_add (Fin a) (Fin b) = Fin (a + b)"
| "js_add NaN _ = NaN"
| "js_add _ NaN = NaN"
| "js_add PInf NInf = NaN"
| "js_add NInf PInf = NaN"
| "js_add PInf _ = PInf"
| "js_add NInf _ = NInf"
| "js_add _ PInf = PInf"
| "js_add _ NInf = NInf"

definition js_sub :: "jsnum \<Rightarrow> jsnum \<Rightarrow> jsnum" where
  "js_sub a b = js_add a (js_neg b)"

definition inf_of_sign :: "real \<Rightarrow> jsnum" where
  "inf_of_sign s = (if s = 0 then NaN else if 0 < s then PInf else NInf)"

fun js_mul :: "jsnum \<Rightarrow> jsnum \<Rightarrow> jsnum" where
  "js_mul (Fin a) (Fin b) = Fin (a * b)"
| "js_mul NaN _ = NaN"
| "js_mul _ NaN = NaN"
| "js_mul (Fin a) PInf = inf_of_sign a"
| "js_mul (Fin a) NInf = inf_of_sign (- a)"
| "js_mul PInf (Fin b) = inf_of_sign b"
| "js_mul NInf (Fin b) = inf_of_sign (- b)"
| "js_mul PInf PInf = PInf"
| "js_mul NInf NInf = PInf"
| "js_mul PInf NInf = NInf"
| "js_mul NInf PInf = NInf"

fun js_div :: "jsnum \<Rightarrow> jsnum \<Rightarrow> jsnum" where
  "js_div (Fin a) (Fin b) = (if b = 0 then inf_of_sign a else Fin (a / b))"
| "js_div NaN _ = NaN"
| "js_div _ NaN = NaN"
| "js_div (Fin a) _ = Fin 0"
| "js_div PInf (Fin b) = (if 0 \<le> b then PInf else NInf)"
| "js_div NInf (Fin b) = (if 0 \<le> b then NInf else PInf)"
| "js_div _ _ = NaN"

fun js_sqrt :: "jsnum \<Rightarrow> jsnum" where
  "js_sqrt (Fin a) = (if a < 0 then NaN else Fin (sqrt a))"
| "js_sqrt PInf = PInf"
| "js_sqrt _ = NaN"

text \<open>
  A \<open>Float32Array\<close> is a list of 32-bit patterns. \<open>f32_value\<close> reads a pattern as the
  IEEE-754 single it encodes. Writing a number into a \<open>Float32Array\<close> rounds it to a
  single; that rounding is the parameter \<open>fround\<close> wherever an embedding is stored.
  The bytes of the array buffer are those of the patterns, least significant first
  (the byte order of the little-endian hosts the engine runs on).
\<close>

definition f32_value :: "32 word \<Rightarrow> jsnum" where
  "f32_value w =
     (let sgn = (if bit w 31 then - 1 else 1 :: real);
          e = unat (drop_bit 23 w AND 255);
          m = unat (w AND 8388607)
      in if e = 255 then (if m = 0 then (if bit w 31 then NInf else PInf) else NaN)
         else if e = 0 then Fin (sgn * real m / 2 ^ 149)
         else Fin (sgn * real (8388608 + m) * 2 ^ e / 2 ^ 150))"

definition f32_bytes :: "32 word \<Rightarrow> 8 word list" where
  "f32_bytes w = [ucast w, ucast (drop_bit 8 w), ucast (drop_bit 16 w), ucast (drop_bit 24 w)]"

definition f32_of_bytes :: "8 word \<Rightarrow> 8 word \<Rightarrow> 8 word \<Rightarrow> 8 word \<Rightarrow> 32 word" where
  "f32_of_bytes b0 b1 b2 b3 =
     ucast b0 OR push_bit 8 (ucast b1) OR push_bit 16 (ucast b2) OR push_bit 24 (ucast b3)"

definition embedding_buffer :: "('n \<Rightarrow> 32 word) \<Rightarrow> 'n list \<Rightarrow> 8 word list" where
  \<comment> \<open>\<open>Buffer.from(new Float32Array(embedding).buffer)\<close>\<close>
  "embedding_buffer fround e = concat (map (\<lambda>x. f32_bytes (fround x)) e)"

fun float32_view :: "8 word list \<Rightarrow> 32 word list" where
  \<comment> \<open>\<open>new Float32Array(b.buffer, b.byteOffset, b.byteLength / 4)\<close>: the whole groups
      of four bytes of the payload; a remainder of fewer than four bytes is not read.\<close>
  "float32_view (b0 # b1 # b2 # b3 # bs) = f32_of_bytes b0 b1 b2 b3 # float32_view bs"
| "float32_view bs = []"

section \<open>Vector Ranker: \<open>cosineSimilarity\<close> and \<open>vectorSearch\<close>\<close>

record VectorResult =
  v_chunk_id :: int
  v_content :: string
  similarity :: jsnum

definition typed_at :: "jsnum list \<Rightarrow> nat \<Rightarrow> jsnum" where
  \<comment> \<open>\<open>b[i]\<close> on a typed array: \<open>undefined\<close> past the end, which the arithmetic that
      follows turns into \<open>NaN\<close>.\<close>
  "typed_at b i = (if i < length b then b ! i else NaN)"

definition cosine_step :: "jsnum list \<Rightarrow> jsnum list \<Rightarrow> nat \<Rightarrow> jsnum \<times> jsnum \<times> jsnum \<Rightarrow> jsnum \<times> jsnum \<times> jsnum" where
  "cosine_step a b i acc =
     (case acc of (dotProduct, normA, normB) \<Rightarrow>
        (js_add dotProduct (js_mul (a ! i) (typed_at b i)),
         js_add normA (js_mul (a ! i) (a ! i)),
         js_add normB (js_mul (typed_at b i) (typed_at b i))))"

definition cosineSimilarity :: "jsnum list \<Rightarrow> jsnum list \<Rightarrow> jsnum" where
  "cosineSimilarity a b =
     (case fold (cosine_step a b) [0..<length a] (Fin 0, Fin 0, Fin 0) of
        (dotProduct, normA, normB) \<Rightarrow> js_div dotProduct (js_mul (js_sqrt normA) (js_sqrt normB)))"

definition js_positive :: "jsnum \<Rightarrow> bool" where
  "js_positive x = (case x of Fin r \<Rightarrow> 0 < r | PInf \<Rightarrow> True | _ \<Rightarrow> False)"

fun insert_by :: "('a \<Rightarrow> 'a \<Rightarrow> jsnum) \<Rightarrow> 'a \<Rightarrow> 'a list \<Rightarrow> 'a list" where
  "insert_by cmp x [] = [x]"
| "insert_by cmp x (y # ys) =
     (if js_positive (cmp x y) then y # insert_by cmp x ys else x # y # ys)"

definition js_sort :: "('a \<Rightarrow> 'a \<Rightarrow> jsnum) \<Rightarrow> 'a list \<Rightarrow> 'a list" where
  \<comment> \<open>\<open>Array.prototype.sort\<close> with a comparator, as a stable insertion sort: an element
      moves behind another only when the comparator is positive, and a \<open>NaN\<close> result
      counts as zero. Where the comparator is not a consistent order (it returns \<open>NaN\<close>)
      the language leaves the order to the engine; the properties below use only that
      sorting permutes its input.\<close>
  "js_sort cmp xs = foldr (insert_by cmp) xs []"

definition js_slice0 :: "'a list \<Rightarrow> int \<Rightarrow> 'a list" where
  \<comment> \<open>\<open>xs.slice(0, n)\<close>: a negative \<open>n\<close> counts from the end.\<close>
  "js_slice0 xs n = (if n < 0 then take (nat (int (length xs) + n)) xs else take (nat n) xs)"

definition vectorSearch :: "Database \<Rightarrow> jsnum list \<Rightarrow> int \<Rightarrow> VectorResult list" where
  "vectorSearch db queryEmbedding limit =
     (let results = List.map_filter
            (\<lambda>c. case embedding c of
                    None \<Rightarrow> None
                  | Some e \<Rightarrow> Some \<lparr>v_chunk_id = chunk_id c, v_content = content c,
                       similarity = cosineSimilarity queryEmbedding (map f32_value (float32_view e))\<rparr>)
            (chunks db)
      in js_slice0 (js_sort (\<lambda>a b. js_sub (similarity b) (similarity a)) results) limit)"


definition zero_or_nan :: "jsnum \<Rightarrow> bool" where
  \<comment> \<open>What a sum of products with a zero vector can be.\<close>
  "zero_or_nan x = (x = Fin 0 \<or> x = NaN)"


section \<open>Lexical Ranker and Hybrid Search\<close>

text \<open>
  Matching and BM25 scoring belong to the full-text engine of the store. The engine is a
  parameter: given the rows of \<open>chunks_fts\<close> and the query it returns the matching row
  identifiers with their scores, or nothing when it rejects the query, in which case
  the search raises.
\<close>

type_synonym fts_engine = "(int \<times> string) list \<Rightarrow> string \<Rightarrow> (int \<times> real) list option"

record BM25Result =
  b_chunk_id :: int
  b_content :: string
  b_score :: real

definition sql_limit :: "int \<Rightarrow> 'a list \<Rightarrow> 'a list" where
  \<comment> \<open>\<open>LIMIT n\<close>: a negative \<open>n\<close> is no limit.\<close>
  "sql_limit n xs = (if n < 0 then xs else take (nat n) xs)"

definition bm25Search :: "fts_engine \<Rightarrow> Database \<Rightarrow> string \<Rightarrow> int \<Rightarrow> BM25Result list option" where
  "bm25Search engine db query limit =
     (case engine (chunks_fts db) query of
        None \<Rightarrow> None
      | Some hits \<Rightarrow>
          Some (sql_limit limit (sort_key b_score
            (concat (map (\<lambda>(rowid, s).
               map (\<lambda>c. \<lparr>b_chunk_id = rowid, b_content = content c, b_score = s\<rparr>)
                   (filter (\<lambda>c. chunk_id c = rowid) (chunks db))) hits)))))"

record SearchResult =
  sr_content :: string
  source_path :: string
  sr_score :: real
  sr_chunk_index :: int

definition hydrate :: "Database \<Rightarrow> int \<Rightarrow> (ChunkRecord \<times> FileRecord) option" where
  \<comment> \<open>The first row of \<open>chunks c JOIN files f ON c.file_id = f.id WHERE c.id = ?\<close>\<close>
  "hydrate db i =
     (case concat (map (\<lambda>c. map (\<lambda>f. (c, f)) (filter (\<lambda>f. chunk_file_id c = file_id f) (files db)))
                       (filter (\<lambda>c. chunk_id c = i) (chunks db))) of
        [] \<Rightarrow> None
      | p # _ \<Rightarrow> Some p)"

definition fused_prefix :: "fts_engine \<Rightarrow> Database \<Rightarrow> string \<Rightarrow> jsnum list \<Rightarrow> int \<Rightarrow> real RankedResult list option" where
  \<comment> \<open>\<open>topResults\<close>: the first \<open>limit\<close> entries of the fusion of the two rankings.\<close>
  "fused_prefix engine db query queryEmbedding limit =
     (case bm25Search engine db query (limit * 2) of
        None \<Rightarrow> None
      | Some bm25Results \<Rightarrow>
          (let vectorResults = vectorSearch db queryEmbedding (limit * 2);
               bm25Ranked = map (\<lambda>r. \<lparr>rid = b_chunk_id r, score = Fin (b_score r)\<rparr>) bm25Results;
               vectorRanked = map (\<lambda>r. \<lparr>rid = v_chunk_id r, score = similarity r\<rparr>) vectorResults;
               merged = mergeWithRRF [bm25Ranked, vectorRanked] 60
           in Some (js_slice0 merged limit)))"

definition display_score :: "real RankedResult list \<Rightarrow> real RankedResult \<Rightarrow> real" where
  "display_score topResults ranked =
     (let maxScore = (if topResults \<noteq> [] then score (hd topResults) else 1);
          minScore = (if topResults \<noteq> [] then score (last topResults) else 0);
          scoreRange = maxScore - minScore
      in if scoreRange > 0 then (score ranked - minScore) / scoreRange else 1)"

definition hybridSearch :: "fts_engine \<Rightarrow> Database \<Rightarrow> string \<Rightarrow> jsnum list \<Rightarrow> int \<Rightarrow> SearchResult list option" where
  "hybridSearch engine db query queryEmbedding limit =
     (case fused_prefix engine db query queryEmbedding limit of
        None \<Rightarrow> None
      | Some topResults \<Rightarrow>
          Some (List.map_filter
            (\<lambda>ranked. case hydrate db (rid ranked) of
                 None \<Rightarrow> None
               | Some (c, f) \<Rightarrow> Some \<lparr>sr_content = content c, source_path = path f,
                                    sr_score = display_score topResults ranked,
                                    sr_chunk_index = chunk_index c\<rparr>)
            topResults))"

definition references_ok :: "Database \<Rightarrow> bool" where
  \<comment> \<open>The foreign key of \<open>chunks\<close>: the file of every chunk exists.\<close>
  "references_ok db = list_all (\<lambda>c. chunk_file_id c \<in> set (map file_id (files db))) (chunks db)"

definition all_equal_scores :: "real RankedResult list \<Rightarrow> bool" where
  "all_equal_scores rs = list_all (\<lambda>r. score r = score (hd rs)) rs"

definition every_fts :: fts_engine where
  \<comment> \<open>An engine for the examples: every row matches, with score \<open>-1\<close>.\<close>
  "every_fts rows query = Some (map (\<lambda>(rowid, c). (rowid, - 1)) rows)"

definition search_example_store :: Database where
  \<comment> \<open>Two fragments of one note; only the second has an embedding, the single \<open>1.0\<close>.\<close>
  "search_example_store =
     \<lparr>files = [\<lparr>file_id = 1, path = ''a.md'', hash = ''ab''\<rparr>],
      chunks = [\<lparr>chunk_id = 1, chunk_file_id = 1, chunk_index = 0, content = ''first'',
                 raw_text = ''first'', embedding = None\<rparr>,
                \<lparr>chunk_id = 2, chunk_file_id = 1, chunk_index = 1, content = ''second'',
                 raw_text = ''second'', embedding = Some [0, 0, 128, 63]\<rparr>],
      chunks_fts = [(1, ''first''), (2, ''second'')],
      sqlite_sequence = [(''files'', 1), (''chunks'', 2)],
      conversations = [], exchanges = []\<rparr>"

section \<open>Hasher\<close>

text \<open>
  SHA-256 as \<open>crypto.createHash('sha256')\<close> computes it, on 32-bit words held as
  integers with the reduction modulo \<open>2 ^ 32\<close> written out. A text is hashed through its
  bytes; the characters of the model are those bytes.
\<close>

definition add32 :: "int \<Rightarrow> int \<Rightarrow> int" where
  "add32 x y = (x + y) mod 4294967296"

definition rotr :: "int \<Rightarrow> int \<Rightarrow> int \<Rightarrow> int" where
  \<comment> \<open>rotation to the right by \<open>n\<close> bits, given \<open>p = 2 ^ n\<close> and \<open>q = 2 ^ (32 - n)\<close>\<close>
  "rotr p q w = w div p + (w mod p) * q"

definition ssig0 :: "int \<Rightarrow> int" where
  "ssig0 x = rotr 128 33554432 x XOR rotr 262144 16384 x XOR x div 8"

definition ssig1 :: "int \<Rightarrow> int" where
  "ssig1 x = rotr 131072 32768 x XOR rotr 524288 8192 x XOR x div 1024"

definition bsig0 :: "int \<Rightarrow> int" where
  "bsig0 x = rotr 4 1073741824 x XOR rotr 8192 524288 x XOR rotr 4194304 1024 x"

definition bsig1 :: "int \<Rightarrow> int" where
  "bsig1 x = rotr 64 67108864 x XOR rotr 2048 2097152 x XOR rotr 33554432 128 x"

definition ch :: "int \<Rightarrow> int \<Rightarrow> int \<Rightarrow> int" where
  "ch e f g = (e AND f) XOR ((4294967295 - e) AND g)"

definition maj :: "int \<Rightarrow> int \<Rightarrow> int \<Rightarrow> int" where
  "maj a b c = (a AND b) XOR (a AND c) XOR (b AND c)"

definition sha_K :: "int list" where
  "sha_K = [
   1116352408, 1899447441, 3049323471, 3921009573, 961987163, 1508970993, 2453635748, 2870763221,
   3624381080, 310598401, 607225278, 1426881987, 1925078388, 2162078206, 2614888103, 3248222580,
   3835390401, 4022224774, 264347078, 604807628, 770255983, 1249150122, 1555081692, 1996064986,
   2554220882, 2821834349, 2952996808, 3210313671, 3336571891, 3584528711, 113926993, 338241895,
   666307205, 773529912, 1294757372, 1396182291, 1695183700, 1986661051, 2177026350, 2456956037,
   2730485921, 2820302411, 3259730800, 3345764771, 3516065817, 3600352804, 4094571909, 275423344,
   430227734, 506948616, 659060556, 883997877, 958139571, 1322822218, 1537002063, 1747873779,
   1955562222, 2024104815, 2227730452, 2361852424, 2428436474, 2756734187, 3204031479, 3329325298]"

definition sha_H0 :: "int list" where
  "sha_H0 = [1779033703, 3144134277, 1013904242, 2773480762, 1359893119, 2600822924, 528734635, 1541459225]"

definition sha_pad :: "int list \<Rightarrow> int list" where
  "sha_pad m =
     (let l = length m
      in m @ [128] @ replicate ((119 - l mod 64) mod 64) 0
           @ map (\<lambda>i. (int (8 * l) div 256 ^ (7 - i)) mod 256) [0..<8])"

fun be_words :: "int list \<Rightarrow> int list" where
  "be_words (a # b # c # d # bs) = (((a * 256 + b) * 256 + c) * 256 + d) # be_words bs"
| "be_words _ = []"

fun schedule :: "nat list \<Rightarrow> int list \<Rightarrow> int list" where
  \<comment> \<open>the first list holds the indices of the words still to compute; the second the
      last 16 words\<close>
  "schedule (u # us) (w16 # w15 # ws) =
     w16 # schedule us
       (w15 # ws @ [add32 (add32 (add32 w16 (ssig0 w15)) (ws ! 7)) (ssig1 (ws ! 12))])"
| "schedule _ ws = ws"

definition round_out :: "int list \<Rightarrow> int \<Rightarrow> int \<Rightarrow> int list" where
  "round_out st t1 t2 =
     (case st of [a, b, c, d, e, f, g, h] \<Rightarrow> [add32 t1 t2, a, b, c, add32 d t1, e, f, g]
               | _ \<Rightarrow> st)"

definition round_step :: "int \<times> int \<Rightarrow> int list \<Rightarrow> int list" where
  "round_step kw st =
     (case st of
        [a, b, c, d, e, f, g, h] \<Rightarrow>
          round_out st (add32 (add32 (add32 (add32 h (bsig1 e)) (ch e f g)) (fst kw)) (snd kw))
                       (add32 (bsig0 a) (maj a b c))
      | _ \<Rightarrow> st)"

definition compress :: "int list \<Rightarrow> int list \<Rightarrow> int list" where
  "compress hs block =
     map2 add32 hs (fold round_step (zip sha_K (schedule [16..<64] block)) hs)"

fun sha_blocks :: "int list \<Rightarrow> int list \<Rightarrow> int list" where
  "sha_blocks hs [] = hs"
| "sha_blocks hs (w # ws) = sha_blocks (compress hs (take 16 (w # ws))) (drop 16 (w # ws))"

definition hex_digit :: "int \<Rightarrow> char" where
  "hex_digit n = ''0123456789abcdef'' ! nat n"

definition hex32 :: "int \<Rightarrow> string" where
  "hex32 w = map (\<lambda>i. hex_digit ((w div 16 ^ (7 - i)) mod 16)) [0..<8]"

definition sha_words :: "string \<Rightarrow> int list" where
  "sha_words s = be_words (sha_pad (map (\<lambda>c. int (of_char c)) s))"

definition sha256 :: "string \<Rightarrow> string" where
  \<comment> \<open>\<open>crypto.createHash('sha256').update(s).digest('hex')\<close>\<close>
  "sha256 s = concat (map hex32 (sha_blocks sha_H0 (sha_words s)))"


section \<open>Conversation Indexer: \<open>indexConversationFile\<close>\<close>





















subsection \<open>Two exports of one conversation\<close>










section \<open>Note Indexer: \<open>indexFiles\<close>\<close>

text \<open>
  The Markdown tree is the list of its files in walk order, each a path relative to the
  root with its content. The embedder is a total function; a fragmentation that does
  not return makes the whole run not return (\<open>None\<close>). An exception of the store is
  caught for the file at hand: what was written before it stays, because the run opens
  no transaction.
\<close>

record IndexStats =
  filesProcessed :: nat
  filesAdded :: nat
  filesUpdated :: nat
  filesSkipped :: nat
  filesDeleted :: nat
  chunksCreated :: nat
  stat_errors :: "string list"

definition empty_stats :: IndexStats where
  "empty_stats = \<lparr>filesProcessed = 0, filesAdded = 0, filesUpdated = 0, filesSkipped = 0,
                   filesDeleted = 0, chunksCreated = 0, stat_errors = []\<rparr>"

definition computeFileHash :: "string \<Rightarrow> string" where
  "computeFileHash fileContent = sha256 fileContent"

fun insert_chunks ::
  "(string \<Rightarrow> 8 word list) \<Rightarrow> int \<Rightarrow> nat \<Rightarrow> string list \<Rightarrow> Database \<times> IndexStats
   \<Rightarrow> db_error option \<times> Database \<times> IndexStats" where
  \<comment> \<open>the loop of \<open>processFileContent\<close> from index \<open>i\<close> on; the first argument is the
      embedding buffer of a chunk\<close>
  "insert_chunks buffer fileId i [] st = (None, st)"
| "insert_chunks buffer fileId i (chunkContent # rest) st =
     (case insertChunkWithEmbedding (fst st) fileId (int i) chunkContent chunkContent
             (buffer chunkContent) of
        Inl err \<Rightarrow> (Some err, st)
      | Inr (db1, chunkId) \<Rightarrow>
          (case insert_fts db1 chunkId chunkContent of
             Inl err \<Rightarrow> (Some err, db1, snd st)
           | Inr db2 \<Rightarrow>
               insert_chunks buffer fileId (Suc i) rest
                 (db2, (snd st)\<lparr>chunksCreated := chunksCreated (snd st) + 1\<rparr>)))"

definition processFileContent ::
  "nat \<Rightarrow> int \<Rightarrow> int \<Rightarrow> (string \<Rightarrow> 'n list) \<Rightarrow> ('n \<Rightarrow> 32 word) \<Rightarrow> int \<Rightarrow> string
   \<Rightarrow> Database \<times> IndexStats \<Rightarrow> (db_error option \<times> Database \<times> IndexStats) option" where
  "processFileContent fuel chunkSize chunkOverlap embedder fround fileId fileContent st =
     (case chunkText fuel fileContent chunkSize chunkOverlap of
        None \<Rightarrow> None
      | Some cs \<Rightarrow>
          Some (insert_chunks (\<lambda>c. embedding_buffer fround (embedder c)) fileId 0 cs st))"

definition caught :: "string \<Rightarrow> db_error option \<times> Database \<times> IndexStats \<Rightarrow> Database \<times> IndexStats" where
  \<comment> \<open>the \<open>catch\<close> of the loop over the files\<close>
  "caught filePath r =
     (case r of
        (None, st) \<Rightarrow> st
      | (Some err, db, stats) \<Rightarrow>
          (db, stats\<lparr>stat_errors := stat_errors stats @ [''Error processing '' @ filePath]\<rparr>))"

definition prune_file :: "string list \<Rightarrow> FileRecord \<Rightarrow> Database \<times> IndexStats \<Rightarrow> Database \<times> IndexStats" where
  \<comment> \<open>the body of the deletion loop: a stored file that is no longer on disk\<close>
  "prune_file currentFilePaths dbFile st =
     (if path dbFile \<notin> set currentFilePaths
      then (deleteFile (deleteChunksByFileId (fst st) (file_id dbFile)) (file_id dbFile),
            (snd st)\<lparr>filesDeleted := filesDeleted (snd st) + 1\<rparr>)
      else st)"

definition index_one ::
  "nat \<Rightarrow> int \<Rightarrow> int \<Rightarrow> (string \<Rightarrow> 'n list) \<Rightarrow> ('n \<Rightarrow> 32 word) \<Rightarrow> string \<times> string
   \<Rightarrow> Database \<times> IndexStats \<Rightarrow> (Database \<times> IndexStats) option" where
  \<comment> \<open>the body of the loop over the files on disk\<close>
  "index_one fuel chunkSize chunkOverlap embedder fround file st =
     (let relativePath = fst file;
          fileContent = snd file;
          db = fst st;
          stats = (snd st)\<lparr>filesProcessed := filesProcessed (snd st) + 1\<rparr>;
          fileHash = computeFileHash fileContent
      in case getFileByPath db relativePath of
           Some existingFile \<Rightarrow>
             if hash existingFile = fileHash
             then Some (db, stats\<lparr>filesSkipped := filesSkipped stats + 1\<rparr>)
             else map_option (caught relativePath)
                    (processFileContent fuel chunkSize chunkOverlap embedder fround
                       (file_id existingFile) fileContent
                       (updateFileHash (deleteChunksByFileId db (file_id existingFile))
                          (file_id existingFile) fileHash,
                        stats\<lparr>filesUpdated := filesUpdated stats + 1\<rparr>))
         | None \<Rightarrow>
             (case insertFile db relativePath fileHash of
                Inl err \<Rightarrow>
                  Some (caught relativePath
                          (Some err, db, stats\<lparr>filesAdded := filesAdded stats + 1\<rparr>))
              | Inr (db1, fileId) \<Rightarrow>
                  map_option (caught relativePath)
                    (processFileContent fuel chunkSize chunkOverlap embedder fround fileId
                       fileContent (db1, stats\<lparr>filesAdded := filesAdded stats + 1\<rparr>))))"

fun index_loop ::
  "nat \<Rightarrow> int \<Rightarrow> int \<Rightarrow> (string \<Rightarrow> 'n list) \<Rightarrow> ('n \<Rightarrow> 32 word) \<Rightarrow> (string \<times> string) list
   \<Rightarrow> Database \<times> IndexStats \<Rightarrow> (Database \<times> IndexStats) option" where
  "index_loop fuel chunkSize chunkOverlap embedder fround [] st = Some st"
| "index_loop fuel chunkSize chunkOverlap embedder fround (file # rest) st =
     (case index_one fuel chunkSize chunkOverlap embedder fround file st of
        None \<Rightarrow> None
      | Some st' \<Rightarrow> index_loop fuel chunkSize chunkOverlap embedder fround rest st')"

definition indexFiles ::
  "nat \<Rightarrow> int \<Rightarrow> int \<Rightarrow> (string \<Rightarrow> 'n list) \<Rightarrow> ('n \<Rightarrow> 32 word) \<Rightarrow> Database
   \<Rightarrow> (string \<times> string) list \<Rightarrow> (Database \<times> IndexStats) option" where
  "indexFiles fuel chunkSize chunkOverlap embedder fround db markdownFiles =
     index_loop fuel chunkSize chunkOverlap embedder fround markdownFiles
       (fold (prune_file (map fst markdownFiles)) (getAllFiles db) (db, empty_stats))"

definition shadow_coherent :: "Database \<Rightarrow> bool" where
  \<comment> \<open>every fragment has exactly one full-text row, and every full-text row belongs to
      a fragment\<close>
  "shadow_coherent db =
     (list_all (\<lambda>c. length (filter (\<lambda>r. fst r = chunk_id c) (chunks_fts db)) = 1) (chunks db)
      \<and> list_all (\<lambda>r. fst r \<in> set (map chunk_id (chunks db))) (chunks_fts db))"

(*PROPS*)

section \<open>Fragmenter: window starts and termination\<close>










lemma stuck_window: "window_end ''a bbbbbbbbbbbb'' 5 0 = 1"
  by code_simp

lemma chunk_loop_stuck: "chunk_loop n ''a bbbbbbbbbbbb'' 5 1 0 acc = None"
proof (induction n arbitrary: acc)
  case 0
  show ?case by simp
next
  case (Suc n)
  show ?case by (simp add: stuck_window Let_def Suc.IH)
qed

text \<open>
  Claim C10 (termination for \<open>0 < overlap < chunkSize\<close>) against the code: on the text
  \<open>a bbbbbbbbbbbb\<close> with chunk length 5 and overlap 1 the window end is backed off to
  the space at index 1, the next start is \<open>1 - 1 = 0\<close> again, and the loop never exits:
  no amount of fuel yields a result.
\<close>

theorem chunkText_diverges:
  "(0::int) < 1 \<and> (1::int) < 5 \<and> (\<forall>fuel. chunkText fuel ''a bbbbbbbbbbbb'' 5 1 = None)"
  by (simp add: chunkText_def chunk_loop_stuck)

section \<open>Fuser: fused scores and order\<close>



lemma map_set_keys:
  "map fst (map_set m k v) = (if k \<in> set (map fst m) then map fst m else map fst m @ [k])"
  by (induction m k v rule: map_set.induct) auto

lemma map_set_map_of: "map_of (map_set m k v) = (map_of m)(k \<mapsto> v)"
  by (induction m k v rule: map_set.induct) auto

lemma get_or0_map_set: "get_or0 (map_set m k v) i = (if i = k then v else get_or0 m i)"
  by (simp add: get_or0_def map_set_map_of)

lemma first_occurrences_snoc:
  "first_occurrences (xs @ [x]) = (if x \<in> set xs then first_occurrences xs else first_occurrences xs @ [x])"
  by (simp add: first_occurrences_def)

lemma set_first_occurrences [simp]: "set (first_occurrences xs) = set xs"
  by (simp add: first_occurrences_def)

lemma distinct_first_occurrences [simp]: "distinct (first_occurrences xs)"
  by (simp add: first_occurrences_def)

lemma rrf_forEach_keys:
  "map fst scores = first_occurrences D \<Longrightarrow>
   map fst (rrf_forEach k rs rank scores) = first_occurrences (D @ map rid rs)"
proof (induction rs arbitrary: rank scores D)
  case Nil
  then show ?case by simp
next
  case (Cons r rs)
  let ?s = "map_set scores (rid r) (get_or0 scores (rid r) + 1 / (of_int k + of_nat rank + 1))"
  have "map fst ?s = first_occurrences (D @ [rid r])"
    using Cons.prems by (simp add: map_set_keys first_occurrences_snoc)
  from Cons.IH[OF this] show ?case by (simp add: Let_def)
qed

fun tail_term :: "int \<Rightarrow> nat \<Rightarrow> 's RankedResult list \<Rightarrow> int \<Rightarrow> real" where
  "tail_term k rank [] i = 0"
| "tail_term k rank (r # rs) i =
     (if rid r = i then 1 / (of_int k + of_nat rank + 1) else 0) + tail_term k (Suc rank) rs i"

lemma tail_term_sum:
  "tail_term k rank rs i =
   (\<Sum>j\<leftarrow>[0..<length rs]. if rid (rs ! j) = i then 1 / (of_int k + of_nat (rank + j) + 1) else 0)"
proof (induction rs arbitrary: rank)
  case Nil
  show ?case by simp
next
  case (Cons r rs)
  have "[0..<length (r # rs)] = 0 # map Suc [0..<length rs]"
    by (simp add: upt_conv_Cons map_Suc_upt del: upt_Suc)
  then show ?case
    by (simp add: Cons.IH comp_def del: upt_Suc cong: if_cong)
qed

lemma list_term_tail: "list_term k l i = tail_term k 0 l i"
  by (simp add: list_term_def tail_term_sum cong: if_cong)

lemma rrf_forEach_value:
  "get_or0 (rrf_forEach k rs rank scores) i = get_or0 scores i + tail_term k rank rs i"
proof (induction rs arbitrary: rank scores)
  case Nil
  show ?case by simp
next
  case (Cons r rs)
  show ?case by (simp add: Let_def Cons.IH get_or0_map_set)
qed

lemma fold_keys:
  "map fst scores = first_occurrences D \<Longrightarrow>
   map fst (fold (\<lambda>results scores. rrf_forEach k results 0 scores) ls scores)
   = first_occurrences (D @ map rid (concat ls))"
proof (induction ls arbitrary: scores D)
  case Nil
  then show ?case by simp
next
  case (Cons l ls)
  from Cons.IH[OF rrf_forEach_keys[OF Cons.prems, of k l 0]] show ?case by simp
qed

lemma fold_value:
  "get_or0 (fold (\<lambda>results scores. rrf_forEach k results 0 scores) ls scores) i
   = get_or0 scores i + fused k ls i"
proof (induction ls arbitrary: scores)
  case Nil
  show ?case by (simp add: fused_def)
next
  case (Cons l ls)
  show ?case by (simp add: Cons.IH rrf_forEach_value fused_def list_term_tail)
qed

lemma assoc_by_keys:
  "distinct (map fst m) \<Longrightarrow> m = map (\<lambda>i. (i, get_or0 m i)) (map fst m)"
proof (induction m)
  case Nil
  show ?case by simp
next
  case (Cons p m)
  obtain a b where p: "p = (a, b)" by (cases p)
  from Cons.prems p have notin: "a \<notin> fst ` set m" and d: "distinct (map fst m)" by auto
  have "map (\<lambda>i. (i, get_or0 ((a, b) # m) i)) (map fst m) = map (\<lambda>i. (i, get_or0 m i)) (map fst m)"
    using notin by (auto simp: get_or0_def)
  with Cons.IH[OF d] p show ?case by (simp add: get_or0_def)
qed

lemma accumulator_eq:
  "fold (\<lambda>results scores. rrf_forEach k results 0 scores) ls []
   = map (\<lambda>i. (i, fused k ls i)) (insertion_order ls)"
proof -
  let ?m = "fold (\<lambda>results scores. rrf_forEach k results 0 scores) ls []"
  have keys: "map fst ?m = insertion_order ls"
    using fold_keys[of "[]" "[]" k ls] by (simp add: insertion_order_def first_occurrences_def)
  have vals: "get_or0 ?m i = fused k ls i" for i
    using fold_value[of k ls "[]" i] by (simp add: get_or0_def)
  have "distinct (map fst ?m)" by (simp add: keys insertion_order_def)
  from assoc_by_keys[OF this] show ?thesis by (simp add: keys vals)
qed

lemma mergeWithRRF_eq:
  "mergeWithRRF ls k =
   sort_key (\<lambda>r. - score r) (map (\<lambda>i. \<lparr>rid = i, score = fused k ls i\<rparr>) (insertion_order ls))"
  by (simp add: mergeWithRRF_def accumulator_eq sort_score_desc_def comp_def)


lemma sorted_desc_sort_key:
  "sorted_wrt (\<lambda>a b. score b \<le> score a) (sort_key (\<lambda>r. - score r) (rs :: real RankedResult list))"
proof -
  have "sorted (map (\<lambda>r. - score r) (sort_key (\<lambda>r. - score r) rs))"
    by (rule sorted_sort_key)
  then show ?thesis by (simp add: sorted_map)
qed




section \<open>Store: reset and cascade on conversation delete\<close>


text \<open>
  Claim C7 against the code: \<open>resetDatabase\<close> empties \<open>files\<close>, \<open>chunks\<close> and
  \<open>chunks_fts\<close> and clears their counters, but has no statement for \<open>conversations\<close>
  and \<open>exchanges\<close>: on a store with one conversation and one exchange both rows are
  still there after the reset.
\<close>

theorem resetDatabase_keeps_conversations:
  "resetDatabase example_store =
     \<lparr>files = [], chunks = [], chunks_fts = [], sqlite_sequence = [],
      conversations = [example_conversation], exchanges = [example_exchange]\<rparr>
   \<and> conversations (resetDatabase db) = conversations db
   \<and> exchanges (resetDatabase db) = exchanges db"
  by (simp add: resetDatabase_def example_store_def)

lemma prune_copilot_exchanges_subset:
  "set (exchanges (fst (fold (prune_copilot ps) cs st))) \<subseteq> set (exchanges (fst st))"
proof (induction cs arbitrary: st)
  case Nil
  show ?case by simp
next
  case (Cons c cs)
  have "set (exchanges (fst (prune_copilot ps c st))) \<subseteq> set (exchanges (fst st))"
    by (auto simp: prune_copilot_def deleteConversation_def)
  with Cons.IH[of "prune_copilot ps c st"] show ?case by auto
qed

lemma prune_copilot_conversations_subset:
  "set (conversations (fst (fold (prune_copilot ps) cs st))) \<subseteq> set (conversations (fst st))"
proof (induction cs arbitrary: st)
  case Nil
  show ?case by simp
next
  case (Cons c cs)
  have "set (conversations (fst (prune_copilot ps c st))) \<subseteq> set (conversations (fst st))"
    by (auto simp: prune_copilot_def deleteConversation_def)
  with Cons.IH[of "prune_copilot ps c st"] show ?case by auto
qed

lemma prune_copilot_removes:
  assumes "c \<in> set cs" "archive_path c \<noteq> []" "archive_path c \<notin> set ps"
  shows "(\<forall>e\<in>set (exchanges (fst (fold (prune_copilot ps) cs st))). conversation_id e \<noteq> conv_id c)
       \<and> (\<forall>r\<in>set (conversations (fst (fold (prune_copilot ps) cs st))). conv_id r \<noteq> conv_id c)"
  using assms(1)
proof (induction cs arbitrary: st)
  case Nil
  then show ?case by simp
next
  case (Cons a cs)
  show ?case
  proof (cases "a = c")
    case True
    let ?st = "prune_copilot ps c st"
    have e: "\<forall>e\<in>set (exchanges (fst ?st)). conversation_id e \<noteq> conv_id c"
      and r: "\<forall>r\<in>set (conversations (fst ?st)). conv_id r \<noteq> conv_id c"
      using assms(2,3) by (auto simp: prune_copilot_def deleteConversation_def)
    from e r prune_copilot_exchanges_subset[of ps cs ?st]
      prune_copilot_conversations_subset[of ps cs ?st] True
    show ?thesis by auto
  next
    case False
    with Cons.prems have "c \<in> set cs" by simp
    from Cons.IH[OF this, of "prune_copilot ps a st"] show ?thesis by simp
  qed
qed

text \<open>
  Claim C3. The \<open>DELETE\<close> of a conversation removes the row and, by the cascade of the
  schema, every exchange that names it, in that one statement. So after the
  delete-detection loop of \<open>indexConversationFiles\<close>, a stored Copilot conversation whose
  archive path is not among the current files has no row and no exchange left.
\<close>

theorem delete_detection_cascades:
  assumes "c \<in> set (conversations db)" and "source c = ''copilot''"
    and "archive_path c \<noteq> []" and "archive_path c \<notin> set filePaths"
  shows "(\<forall>e\<in>set (exchanges (deleteConversation db (conv_id c))). conversation_id e \<noteq> conv_id c)
       \<and> getConversation (deleteConversation db (conv_id c)) (conv_id c) = None
       \<and> (\<forall>e\<in>set (exchanges (fst (delete_detection db filePaths))). conversation_id e \<noteq> conv_id c)
       \<and> getConversation (fst (delete_detection db filePaths)) (conv_id c) = None"
proof -
  have in_src: "c \<in> set (getAllConversationsBySource db ''copilot'')"
    using assms(1,2) by (simp add: getAllConversationsBySource_def)
  have one: "\<forall>e\<in>set (exchanges (deleteConversation db (conv_id c))). conversation_id e \<noteq> conv_id c"
    by (simp add: deleteConversation_def)
  have two: "getConversation (deleteConversation db (conv_id c)) (conv_id c) = None"
    by (simp add: deleteConversation_def getConversation_def find_None_iff)
  note rem = prune_copilot_removes[OF in_src assms(3,4), of "(db, empty_result)"]
  have three: "\<forall>e\<in>set (exchanges (fst (delete_detection db filePaths))). conversation_id e \<noteq> conv_id c"
    using rem by (simp add: delete_detection_def)
  have four: "getConversation (fst (delete_detection db filePaths)) (conv_id c) = None"
    using rem by (simp add: delete_detection_def getConversation_def find_None_iff)
  from one two three four show ?thesis by blast
qed

text \<open>
  Claim C3: the theorem above on the example store, whose conversation \<open>s1\<close> has one
  exchange, with an empty list of current archive files.
\<close>

theorem delete_detection_cascades_witness:
  "example_conversation \<in> set (conversations example_store)
   \<and> source example_conversation = ''copilot''
   \<and> archive_path example_conversation \<noteq> []
   \<and> archive_path example_conversation \<notin> set []
   \<and> exchanges example_store = [example_exchange]
   \<and> conversation_id example_exchange = conv_id example_conversation
   \<and> exchanges (fst (delete_detection example_store [])) = []
   \<and> getConversation (fst (delete_detection example_store [])) (conv_id example_conversation) = None"
proof -
  have h1: "example_conversation \<in> set (conversations example_store)"
    by (simp add: example_store_def)
  have h2: "source example_conversation = ''copilot''"
    by (simp add: example_conversation_def)
  have h3: "archive_path example_conversation \<noteq> []"
    by (simp add: example_conversation_def)
  have h4: "archive_path example_conversation \<notin> set []" by simp
  have e: "exchanges example_store = [example_exchange]"
    "conversation_id example_exchange = conv_id example_conversation"
    by (simp_all add: example_store_def example_exchange_def example_conversation_def)
  have d: "exchanges (fst (delete_detection example_store [])) = []"
    by (simp add: delete_detection_def getAllConversationsBySource_def example_store_def
        example_conversation_def example_exchange_def prune_copilot_def deleteConversation_def)
  from delete_detection_cascades[OF h1 h2 h3 h4] h1 h2 h3 h4 e d show ?thesis by blast
qed

section \<open>Embedding byte layout and the Vector Ranker\<close>


lemma f32_of_bytes_inverse:
  "f32_of_bytes (ucast w) (ucast (drop_bit 8 w)) (ucast (drop_bit 16 w)) (ucast (drop_bit 24 w)) = w"
proof (rule bit_word_eqI)
  fix n :: nat
  assume n: "n < LENGTH(32)"
  consider "n < 8" | "8 \<le> n" "n < 16" | "16 \<le> n" "n < 24" | "24 \<le> n"
    by linarith
  then show "bit (f32_of_bytes (ucast w) (ucast (drop_bit 8 w)) (ucast (drop_bit 16 w))
                   (ucast (drop_bit 24 w))) n = bit w n"
  proof cases
    case 1
    then show ?thesis by (auto simp: f32_of_bytes_def bit_simps)
  next
    case 2
    then show ?thesis using n by (auto simp: f32_of_bytes_def bit_simps)
  next
    case 3
    then show ?thesis using n by (auto simp: f32_of_bytes_def bit_simps)
  next
    case 4
    then show ?thesis using n by (auto simp: f32_of_bytes_def bit_simps)
  qed
qed

lemma float32_view_bytes: "float32_view (f32_bytes w @ bs) = w # float32_view bs"
  by (simp add: f32_bytes_def f32_of_bytes_inverse)

lemma length_f32_bytes: "length (f32_bytes w) = 4"
  by (simp add: f32_bytes_def)

text \<open>
  Claim C9. The stored payload of an embedding is four bytes for each dimension, in
  dimension order, each group the single-precision pattern of the component with the
  least significant byte first; reading the payload back as a \<open>Float32Array\<close> gives the
  patterns, hence the values, of the original components rounded to single precision.
  At dimension 384 the payload has 1536 bytes.
\<close>

theorem embedding_roundtrip:
  "float32_view (embedding_buffer fround e) = map fround e
   \<and> map f32_value (float32_view (embedding_buffer fround e)) = map (\<lambda>x. f32_value (fround x)) e
   \<and> length (embedding_buffer fround e) = 4 * length e
   \<and> (length e = 384 \<longrightarrow> length (embedding_buffer fround e) = 1536)"
proof -
  have v: "float32_view (embedding_buffer fround e) = map fround e"
    by (induction e) (simp_all add: embedding_buffer_def float32_view_bytes)
  have l: "length (embedding_buffer fround e) = 4 * length e"
    by (induction e) (simp_all add: embedding_buffer_def length_f32_bytes)
  from v l show ?thesis by simp
qed

text \<open>
  Claim C9: the theorem above at the vector of 384 components \<open>1.0\<close>, already in single
  precision (pattern \<open>0x3F800000\<close>), so that rounding is the identity.
\<close>

theorem embedding_roundtrip_witness:
  "length (replicate 384 (0x3F800000 :: 32 word)) = 384
   \<and> length (embedding_buffer id (replicate 384 (0x3F800000 :: 32 word))) = 1536
   \<and> float32_view (embedding_buffer id (replicate 384 (0x3F800000 :: 32 word)))
       = replicate 384 0x3F800000"
proof -
  have h: "length (replicate 384 (0x3F800000 :: 32 word)) = 384" by simp
  from embedding_roundtrip[of id "replicate 384 (0x3F800000 :: 32 word)"] h
  show ?thesis by simp
qed

subsection \<open>Zero-norm embeddings\<close>



lemma zn_mul_left: "zero_or_nan a \<Longrightarrow> zero_or_nan (js_mul a b)"
  by (cases b) (auto simp: zero_or_nan_def inf_of_sign_def)






lemma set_insert_by: "set (insert_by cmp x ys) = insert x (set ys)"
  by (induction ys) auto

lemma set_js_sort: "set (js_sort cmp xs) = set xs"
  by (induction xs) (simp_all add: js_sort_def set_insert_by)








section \<open>Hybrid Search: display scores\<close>


lemma mergeWithRRF_sorted:
  "sorted_wrt (\<lambda>a b. score b \<le> score a) (mergeWithRRF ls k)"
  by (simp add: mergeWithRRF_eq sorted_desc_sort_key)

lemma mergeWithRRF_rids:
  "set (map rid (mergeWithRRF ls k)) = set (map rid (concat ls))"
  by (simp add: mergeWithRRF_eq insertion_order_def image_image)

lemma js_slice0_take: "\<exists>n. js_slice0 xs l = take n xs"
  by (auto simp: js_slice0_def)

lemma sorted_desc_bounds:
  assumes "sorted_wrt (\<lambda>a b. score b \<le> score a) (tp :: real RankedResult list)" and "r \<in> set tp"
  shows "score (last tp) \<le> score r \<and> score r \<le> score (hd tp)"
proof -
  from assms(2) have ne: "tp \<noteq> []" by auto
  from assms(2) obtain i where i: "i < length tp" "tp ! i = r"
    by (auto simp: in_set_conv_nth)
  have up: "score r \<le> score (hd tp)"
  proof (cases "i = 0")
    case True
    with i ne show ?thesis by (simp add: hd_conv_nth)
  next
    case False
    with assms(1) i have "score (tp ! i) \<le> score (tp ! 0)"
      by (auto simp: sorted_wrt_iff_nth_less)
    with i ne show ?thesis by (simp add: hd_conv_nth)
  qed
  have lo: "score (last tp) \<le> score r"
  proof (cases "i = length tp - 1")
    case True
    with i ne show ?thesis by (simp add: last_conv_nth)
  next
    case False
    with i have "i < length tp - 1" by simp
    with assms(1) i have "score (tp ! (length tp - 1)) \<le> score (tp ! i)"
      by (auto simp: sorted_wrt_iff_nth_less)
    with ne show ?thesis using i by (simp add: last_conv_nth)
  qed
  from up lo show ?thesis by simp
qed

lemma display_score_range:
  assumes "sorted_wrt (\<lambda>a b. score b \<le> score a) tp" and "r \<in> set tp"
  shows "0 \<le> display_score tp r \<and> display_score tp r \<le> 1"
proof -
  from assms(2) have ne: "tp \<noteq> []" by auto
  from sorted_desc_bounds[OF assms] have b: "score (last tp) \<le> score r" "score r \<le> score (hd tp)"
    by simp_all
  show ?thesis
  proof (cases "score (hd tp) - score (last tp) > 0")
    case True
    with b ne show ?thesis by (simp add: display_score_def Let_def)
  next
    case False
    with ne show ?thesis by (simp add: display_score_def Let_def)
  qed
qed

lemma display_score_mono:
  assumes "score b \<le> score a"
  shows "display_score tp b \<le> display_score tp a"
  using assms by (auto simp: display_score_def Let_def divide_right_mono)

lemma display_score_hd:
  assumes "tp \<noteq> []"
  shows "display_score tp (hd tp) = 1"
  using assms by (simp add: display_score_def Let_def)

lemma display_score_all_equal:
  assumes "all_equal_scores tp" and "tp \<noteq> []"
  shows "display_score tp r = 1"
proof -
  from assms(2) have "last tp \<in> set tp" by simp
  with assms(1) have "score (last tp) = score (hd tp)"
    by (simp add: all_equal_scores_def list_all_iff)
  with assms(2) show ?thesis by (simp add: display_score_def)
qed

lemma sorted_wrt_map_filter:
  assumes "sorted_wrt P xs"
    and "\<And>a b a' b'. P a b \<Longrightarrow> f a = Some a' \<Longrightarrow> f b = Some b' \<Longrightarrow> Q a' b'"
  shows "sorted_wrt Q (List.map_filter f xs)"
  using assms(1)
proof (induction xs)
  case Nil
  show ?case by (simp add: List.map_filter_simps)
next
  case (Cons x xs)
  then have IH: "sorted_wrt Q (List.map_filter f xs)" and px: "\<forall>y\<in>set xs. P x y" by simp_all
  show ?case
  proof (cases "f x")
    case None
    with IH show ?thesis by (simp add: List.map_filter_simps)
  next
    case (Some x')
    have "\<forall>y'\<in>set (List.map_filter f xs). Q x' y'"
      using px Some assms(2) by (auto simp: List.map_filter_def)
    with IH Some show ?thesis by (simp add: List.map_filter_simps)
  qed
qed

lemma hydrate_Some:
  assumes "references_ok db" and "i \<in> set (map chunk_id (chunks db))"
  shows "hydrate db i \<noteq> None"
proof -
  define g where "g = (\<lambda>c::ChunkRecord. map (\<lambda>f. (c, f)) (filter (\<lambda>f. chunk_file_id c = file_id f) (files db)))"
  define cs where "cs = filter (\<lambda>c. chunk_id c = i) (chunks db)"
  from assms(2) obtain c where c: "c \<in> set (chunks db)" "chunk_id c = i" by auto
  with assms(1) obtain f where f: "f \<in> set (files db)" "file_id f = chunk_file_id c"
    by (auto simp: references_ok_def list_all_iff)
  have 1: "c \<in> set cs" using c by (simp add: cs_def)
  have 2: "g c \<noteq> []" using f by (simp add: g_def filter_empty_conv) metis
  from 1 2 have "concat (map g cs) \<noteq> []" by auto
  moreover have "hydrate db i = (case concat (map g cs) of [] \<Rightarrow> None | p # _ \<Rightarrow> Some p)"
    by (simp add: hydrate_def g_def cs_def)
  ultimately show ?thesis by (simp split: list.splits)
qed

lemma bm25Search_ids:
  assumes "bm25Search engine db query limit = Some rs"
  shows "set (map b_chunk_id rs) \<subseteq> set (map chunk_id (chunks db))"
proof -
  from assms obtain hits where rs: "rs = sql_limit limit (sort_key b_score
            (concat (map (\<lambda>(rowid, s).
               map (\<lambda>c. \<lparr>b_chunk_id = rowid, b_content = content c, b_score = s\<rparr>)
                   (filter (\<lambda>c. chunk_id c = rowid) (chunks db))) hits)))"
    by (auto simp: bm25Search_def split: option.splits)
  have "set rs \<subseteq> set (concat (map (\<lambda>(rowid, s).
               map (\<lambda>c. \<lparr>b_chunk_id = rowid, b_content = content c, b_score = s\<rparr>)
                   (filter (\<lambda>c. chunk_id c = rowid) (chunks db))) hits))"
    unfolding rs sql_limit_def by (auto dest: in_set_takeD)
  then show ?thesis by auto
qed

lemma vectorSearch_ids:
  "set (map v_chunk_id (vectorSearch db q limit)) \<subseteq> set (map chunk_id (chunks db))"
proof -
  obtain n where "vectorSearch db q limit = take n (js_sort (\<lambda>a b. js_sub (similarity b) (similarity a))
      (List.map_filter
            (\<lambda>c. case embedding c of
                    None \<Rightarrow> None
                  | Some e \<Rightarrow> Some \<lparr>v_chunk_id = chunk_id c, v_content = content c,
                       similarity = cosineSimilarity q (map f32_value (float32_view e))\<rparr>)
            (chunks db)))"
    using js_slice0_take unfolding vectorSearch_def Let_def by blast
  then have "set (vectorSearch db q limit) \<subseteq> set (List.map_filter
            (\<lambda>c. case embedding c of
                    None \<Rightarrow> None
                  | Some e \<Rightarrow> Some \<lparr>v_chunk_id = chunk_id c, v_content = content c,
                       similarity = cosineSimilarity q (map f32_value (float32_view e))\<rparr>)
            (chunks db))"
    using set_take_subset[of n "js_sort (\<lambda>a b. js_sub (similarity b) (similarity a))
      (List.map_filter
            (\<lambda>c. case embedding c of
                    None \<Rightarrow> None
                  | Some e \<Rightarrow> Some \<lparr>v_chunk_id = chunk_id c, v_content = content c,
                       similarity = cosineSimilarity q (map f32_value (float32_view e))\<rparr>)
            (chunks db))"]
    unfolding set_js_sort by simp
  then show ?thesis
    by (auto simp: List.map_filter_def split: option.splits)
qed


lemma fused_prefix_props:
  assumes "fused_prefix engine db query q limit = Some tp"
  shows "sorted_wrt (\<lambda>a b. score b \<le> score a) tp"
    and "set (map rid tp) \<subseteq> set (map chunk_id (chunks db))"
proof -
  from assms obtain bm where bm: "bm25Search engine db query (limit * 2) = Some bm"
    and tp: "tp = js_slice0 (mergeWithRRF
        [map (\<lambda>r. \<lparr>rid = b_chunk_id r, score = Fin (b_score r)\<rparr>) bm,
         map (\<lambda>r. \<lparr>rid = v_chunk_id r, score = similarity r\<rparr>) (vectorSearch db q (limit * 2))] 60) limit"
    by (auto simp: fused_prefix_def Let_def split: option.splits)
  let ?merged = "mergeWithRRF
        [map (\<lambda>r. \<lparr>rid = b_chunk_id r, score = Fin (b_score r)\<rparr>) bm,
         map (\<lambda>r. \<lparr>rid = v_chunk_id r, score = similarity r\<rparr>) (vectorSearch db q (limit * 2))] 60"
  obtain n where n: "tp = take n ?merged" using js_slice0_take tp by blast
  show "sorted_wrt (\<lambda>a b. score b \<le> score a) tp"
    unfolding n using mergeWithRRF_sorted by (rule sorted_wrt_take)
  have "set (map rid ?merged)
        = set (map rid (concat [map (\<lambda>r. \<lparr>rid = b_chunk_id r, score = Fin (b_score r)\<rparr>) bm,
         map (\<lambda>r. \<lparr>rid = v_chunk_id r, score = similarity r\<rparr>) (vectorSearch db q (limit * 2))]))"
    by (rule mergeWithRRF_rids)
  also have "\<dots> = b_chunk_id ` set bm \<union> v_chunk_id ` set (vectorSearch db q (limit * 2))"
    by (simp add: image_image image_Un)
  finally have m: "set (map rid ?merged)
        = b_chunk_id ` set bm \<union> v_chunk_id ` set (vectorSearch db q (limit * 2))" .
  have b: "b_chunk_id ` set bm \<subseteq> chunk_id ` set (chunks db)"
    using bm25Search_ids[OF bm] by simp
  have v: "v_chunk_id ` set (vectorSearch db q (limit * 2)) \<subseteq> chunk_id ` set (chunks db)"
    using vectorSearch_ids[of db q "limit * 2"] by simp
  have sub: "set tp \<subseteq> set ?merged" unfolding n by (rule set_take_subset)
  show "set (map rid tp) \<subseteq> set (map chunk_id (chunks db))"
  proof
    fix i assume "i \<in> set (map rid tp)"
    then obtain r where r: "r \<in> set tp" "i = rid r" by auto
    with sub have "i \<in> set (map rid ?merged)" by auto
    with m b v show "i \<in> set (map chunk_id (chunks db))" by auto
  qed
qed


text \<open>
  Claim C5. Whenever \<open>hybridSearch\<close> returns a non-empty list, every display score lies
  in \<open>[0, 1]\<close>, the scores do not increase along the list, and they are all 1 when the
  retained fused scores are all equal. The first score is 1 because the first retained
  entry is hydrated; hydration of an identifier delivered by the two rankers cannot
  miss in a store that satisfies the foreign key of \<open>chunks\<close>.
\<close>

theorem hybridSearch_display_scores:
  assumes "hybridSearch engine db query q limit = Some rs" and "rs \<noteq> []"
  shows "(references_ok db \<longrightarrow> sr_score (hd rs) = 1)
       \<and> (\<forall>r\<in>set rs. 0 \<le> sr_score r \<and> sr_score r \<le> 1)
       \<and> sorted_wrt (\<lambda>a b. sr_score b \<le> sr_score a) rs
       \<and> (\<forall>tp. fused_prefix engine db query q limit = Some tp \<and> all_equal_scores tp
              \<longrightarrow> (\<forall>r\<in>set rs. sr_score r = 1))"
proof -
  define h where "h = (\<lambda>tp (ranked :: real RankedResult). case hydrate db (rid ranked) of
                 None \<Rightarrow> None
               | Some (c, f) \<Rightarrow> Some \<lparr>sr_content = content c, source_path = path f,
                                    sr_score = display_score tp ranked,
                                    sr_chunk_index = chunk_index c\<rparr>)"
  from assms(1) obtain tp where tp: "fused_prefix engine db query q limit = Some tp"
    and rs: "rs = List.map_filter (h tp) tp"
    by (auto simp: hybridSearch_def h_def split: option.splits)
  note srt = fused_prefix_props(1)[OF tp] and ids = fused_prefix_props(2)[OF tp]
  from assms(2) rs have ne: "tp \<noteq> []" by (auto simp: List.map_filter_simps)
  have hs: "sr_score r' = display_score tp r" if "h tp r = Some r'" for r r'
    using that by (auto simp: h_def split: option.splits)
  have src: "\<exists>r' \<in> set tp. h tp r' = Some r" if "r \<in> set rs" for r
    using that by (auto simp: rs List.map_filter_def)
  have range: "\<forall>r\<in>set rs. 0 \<le> sr_score r \<and> sr_score r \<le> 1"
  proof
    fix r assume "r \<in> set rs"
    then obtain r' where r': "r' \<in> set tp" "h tp r' = Some r" using src by blast
    from display_score_range[OF srt r'(1)] hs[OF r'(2)] show "0 \<le> sr_score r \<and> sr_score r \<le> 1"
      by simp
  qed
  have mono: "sorted_wrt (\<lambda>a b. sr_score b \<le> sr_score a) rs"
    unfolding rs
  proof (rule sorted_wrt_map_filter[OF srt])
    fix a b a' b'
    assume "score b \<le> score a" "h tp a = Some a'" "h tp b = Some b'"
    then show "sr_score b' \<le> sr_score a'"
      using display_score_mono[of b a tp] hs by simp
  qed
  have eq: "\<forall>r\<in>set rs. sr_score r = 1" if "all_equal_scores tp"
  proof
    fix r assume "r \<in> set rs"
    then obtain r' where r': "r' \<in> set tp" "h tp r' = Some r" using src by blast
    from display_score_all_equal[OF that ne, of r'] hs[OF r'(2)] show "sr_score r = 1" by simp
  qed
  have first: "sr_score (hd rs) = 1" if ok: "references_ok db"
  proof -
    from ne obtain x xs where x: "tp = x # xs" by (cases tp) auto
    with ids have "rid x \<in> set (map chunk_id (chunks db))" by auto
    from hydrate_Some[OF ok this] obtain r0 where r0: "h tp x = Some r0"
      by (auto simp: h_def split: option.splits)
    have "rs = r0 # List.map_filter (h tp) xs"
      using r0 by (subst rs, subst (2) x) (simp add: List.map_filter_simps)
    then have "sr_score (hd rs) = display_score tp x" using hs[OF r0] by simp
    also have "\<dots> = 1" using display_score_hd[OF ne] x by simp
    finally show ?thesis .
  qed
  from first range mono eq tp show ?thesis by auto
qed

lemma one_decodes: "map f32_value (float32_view [0, 0, 128, 63]) = [Fin 1]"
  by (simp add: f32_of_bytes_def f32_value_def bit_simps)

lemma search_example_vector:
  "vectorSearch search_example_store [Fin 1] 20
   = [\<lparr>v_chunk_id = 2, v_content = ''second'', similarity = Fin 1\<rparr>]"
proof -
  have "cosineSimilarity [Fin 1] [Fin 1] = Fin 1"
    by (simp add: cosineSimilarity_def cosine_step_def typed_at_def)
  then show ?thesis
    unfolding vectorSearch_def search_example_store_def
    by (simp add: List.map_filter_simps one_decodes js_sort_def js_slice0_def del: float32_view.simps)
qed

lemma search_example_result:
  "hybridSearch every_fts search_example_store ''note'' [Fin 1] 10
   = Some [\<lparr>sr_content = ''second'', source_path = ''a.md'', sr_score = 1, sr_chunk_index = 1\<rparr>,
           \<lparr>sr_content = ''first'', source_path = ''a.md'', sr_score = 0, sr_chunk_index = 0\<rparr>]"
proof -
  have b: "bm25Search every_fts search_example_store ''note'' 20
     = Some [\<lparr>b_chunk_id = 1, b_content = ''first'', b_score = - 1\<rparr>,
             \<lparr>b_chunk_id = 2, b_content = ''second'', b_score = - 1\<rparr>]"
    by (simp add: bm25Search_def every_fts_def search_example_store_def sql_limit_def)
  have f: "fused_prefix every_fts search_example_store ''note'' [Fin 1] 10
     = Some [\<lparr>rid = 2, score = 1 / 62 + 1 / 61\<rparr>, \<lparr>rid = 1, score = 1 / 61\<rparr>]"
    by (simp add: fused_prefix_def b search_example_vector mergeWithRRF_def sort_score_desc_def
        get_or0_def js_slice0_def)
  have h1: "hydrate search_example_store 1 = Some (\<lparr>chunk_id = 1, chunk_file_id = 1, chunk_index = 0, content = ''first'',
                 raw_text = ''first'', embedding = None\<rparr>, \<lparr>file_id = 1, path = ''a.md'', hash = ''ab''\<rparr>)"
    and h2: "hydrate search_example_store 2 = Some (\<lparr>chunk_id = 2, chunk_file_id = 1, chunk_index = 1, content = ''second'',
                 raw_text = ''second'', embedding = Some [0, 0, 128, 63]\<rparr>, \<lparr>file_id = 1, path = ''a.md'', hash = ''ab''\<rparr>)"
    by (simp_all add: hydrate_def search_example_store_def)
  show ?thesis
    by (simp add: hybridSearch_def f h1 h2 List.map_filter_simps display_score_def)
qed

text \<open>
  Claim C5: the theorem above on a store with two fragments, of which the second is
  found by both rankers: the display scores are 1 and 0.
\<close>

theorem hybridSearch_display_scores_witness:
  "hybridSearch every_fts search_example_store ''note'' [Fin 1] 10
   = Some [\<lparr>sr_content = ''second'', source_path = ''a.md'', sr_score = 1, sr_chunk_index = 1\<rparr>,
           \<lparr>sr_content = ''first'', source_path = ''a.md'', sr_score = 0, sr_chunk_index = 0\<rparr>]
   \<and> references_ok search_example_store
   \<and> sr_score (hd [\<lparr>sr_content = ''second'', source_path = ''a.md'', sr_score = 1, sr_chunk_index = 1\<rparr>,
           \<lparr>sr_content = ''first'', source_path = ''a.md'', sr_score = 0, sr_chunk_index = 0\<rparr>]) = 1"
proof -
  have ne: "[\<lparr>sr_content = ''second'', source_path = ''a.md'', sr_score = 1, sr_chunk_index = 1\<rparr>,
           \<lparr>sr_content = ''first'', source_path = ''a.md'', sr_score = 0 :: real, sr_chunk_index = 0\<rparr>] \<noteq> []"
    by simp
  have ok: "references_ok search_example_store"
    by (simp add: references_ok_def search_example_store_def)
  from hybridSearch_display_scores[OF search_example_result ne] ok search_example_result
  show ?thesis by blast
qed

section \<open>Conversation Indexer: the fingerprint that decides skipping\<close>



























section \<open>Note Indexer: the lexical shadow after a deletion\<close>


lemma short_text: "chunkText fuel ''hello'' 500 50 = Some [''hello'']"
  by (simp add: chunkText_def)

text \<open>
  Claim C2 against the code. A first run ingests the note \<open>a.md\<close> with the content
  \<open>hello\<close>: one fragment and its full-text row, and the store is coherent. The note is
  then removed and a second run prunes the file and its fragment, but
  \<open>deleteChunksByFileId\<close> and \<open>deleteFile\<close> never touch \<open>chunks_fts\<close>: the full-text
  row of the deleted fragment is still there, and the store is no longer coherent.
\<close>

theorem indexFiles_leaves_stale_fts_row:
  "indexFiles fuel 500 50 embedder fround empty_db [(''a.md'', ''hello'')]
   = Some (\<lparr>files = [\<lparr>file_id = 1, path = ''a.md'', hash = sha256 ''hello''\<rparr>],
            chunks = [\<lparr>chunk_id = 1, chunk_file_id = 1, chunk_index = 0, content = ''hello'',
                       raw_text = ''hello'',
                       embedding = Some (embedding_buffer fround (embedder ''hello''))\<rparr>],
            chunks_fts = [(1, ''hello'')],
            sqlite_sequence = [(''files'', 1), (''chunks'', 1)],
            conversations = [], exchanges = []\<rparr>,
           \<lparr>filesProcessed = 1, filesAdded = 1, filesUpdated = 0, filesSkipped = 0,
            filesDeleted = 0, chunksCreated = 1, stat_errors = []\<rparr>)
   \<and> indexFiles fuel 500 50 embedder fround
       \<lparr>files = [\<lparr>file_id = 1, path = ''a.md'', hash = sha256 ''hello''\<rparr>],
        chunks = [\<lparr>chunk_id = 1, chunk_file_id = 1, chunk_index = 0, content = ''hello'',
                   raw_text = ''hello'',
                   embedding = Some (embedding_buffer fround (embedder ''hello''))\<rparr>],
        chunks_fts = [(1, ''hello'')],
        sqlite_sequence = [(''files'', 1), (''chunks'', 1)],
        conversations = [], exchanges = []\<rparr> []
     = Some (\<lparr>files = [], chunks = [], chunks_fts = [(1, ''hello'')],
              sqlite_sequence = [(''files'', 1), (''chunks'', 1)],
              conversations = [], exchanges = []\<rparr>,
             \<lparr>filesProcessed = 0, filesAdded = 0, filesUpdated = 0, filesSkipped = 0,
              filesDeleted = 1, chunksCreated = 0, stat_errors = []\<rparr>)
   \<and> shadow_coherent
       \<lparr>files = [\<lparr>file_id = 1, path = ''a.md'', hash = sha256 ''hello''\<rparr>],
        chunks = [\<lparr>chunk_id = 1, chunk_file_id = 1, chunk_index = 0, content = ''hello'',
                   raw_text = ''hello'',
                   embedding = Some (embedding_buffer fround (embedder ''hello''))\<rparr>],
        chunks_fts = [(1, ''hello'')],
        sqlite_sequence = [(''files'', 1), (''chunks'', 1)],
        conversations = [], exchanges = []\<rparr>
   \<and> \<not> shadow_coherent
         \<lparr>files = [], chunks = [], chunks_fts = [(1, ''hello'')],
          sqlite_sequence = [(''files'', 1), (''chunks'', 1)],
          conversations = [], exchanges = []\<rparr>"
proof -
  have run1: "indexFiles fuel 500 50 embedder fround empty_db [(''a.md'', ''hello'')]
   = Some (\<lparr>files = [\<lparr>file_id = 1, path = ''a.md'', hash = sha256 ''hello''\<rparr>],
            chunks = [\<lparr>chunk_id = 1, chunk_file_id = 1, chunk_index = 0, content = ''hello'',
                       raw_text = ''hello'',
                       embedding = Some (embedding_buffer fround (embedder ''hello''))\<rparr>],
            chunks_fts = [(1, ''hello'')],
            sqlite_sequence = [(''files'', 1), (''chunks'', 1)],
            conversations = [], exchanges = []\<rparr>,
           \<lparr>filesProcessed = 1, filesAdded = 1, filesUpdated = 0, filesSkipped = 0,
            filesDeleted = 0, chunksCreated = 1, stat_errors = []\<rparr>)"
    by (simp add: indexFiles_def getAllFiles_def empty_db_def empty_stats_def index_one_def
        computeFileHash_def getFileByPath_def insertFile_def next_rowid_def set_sequence_def
        processFileContent_def short_text insertChunkWithEmbedding_def insert_fts_def caught_def
        Let_def)
  have run2: "indexFiles fuel 500 50 embedder fround
       \<lparr>files = [\<lparr>file_id = 1, path = ''a.md'', hash = sha256 ''hello''\<rparr>],
        chunks = [\<lparr>chunk_id = 1, chunk_file_id = 1, chunk_index = 0, content = ''hello'',
                   raw_text = ''hello'',
                   embedding = Some (embedding_buffer fround (embedder ''hello''))\<rparr>],
        chunks_fts = [(1, ''hello'')],
        sqlite_sequence = [(''files'', 1), (''chunks'', 1)],
        conversations = [], exchanges = []\<rparr> []
     = Some (\<lparr>files = [], chunks = [], chunks_fts = [(1, ''hello'')],
              sqlite_sequence = [(''files'', 1), (''chunks'', 1)],
              conversations = [], exchanges = []\<rparr>,
             \<lparr>filesProcessed = 0, filesAdded = 0, filesUpdated = 0, filesSkipped = 0,
              filesDeleted = 1, chunksCreated = 0, stat_errors = []\<rparr>)"
    by (simp add: indexFiles_def getAllFiles_def empty_stats_def prune_file_def
        deleteChunksByFileId_def deleteFile_def)
  have bad: "\<not> shadow_coherent
         \<lparr>files = [], chunks = [], chunks_fts = [(1, ''hello'')],
          sqlite_sequence = [(''files'', 1), (''chunks'', 1)],
          conversations = [], exchanges = []\<rparr>"
    by (simp add: shadow_coherent_def)
  have good: "shadow_coherent
       \<lparr>files = [\<lparr>file_id = 1, path = ''a.md'', hash = sha256 ''hello''\<rparr>],
        chunks = [\<lparr>chunk_id = 1, chunk_file_id = 1, chunk_index = 0, content = ''hello'',
                   raw_text = ''hello'',
                   embedding = Some (embedding_buffer fround (embedder ''hello''))\<rparr>],
        chunks_fts = [(1, ''hello'')],
        sqlite_sequence = [(''files'', 1), (''chunks'', 1)],
        conversations = [], exchanges = []\<rparr>"
    by (simp add: shadow_coherent_def)
  from run1 run2 good bad show ?thesis by blast
qed

end
